theory Spec2Isabelle
  imports Complex_Main "HOL-Library.Multiset"
begin

section \<open>Blackjack service (services/blackjack)\<close>

subsection \<open>Cards and the source of randomness\<close>

text \<open>
  A card is the object \<^verbatim>\<open>{ rank, suit }\<close> built by \<^verbatim>\<open>drawCard\<close>. The four suit symbols of
  the array \<^verbatim>\<open>suits\<close> are kept as a datatype, in the order of the array. Ranks and scores
  are JavaScript numbers that only ever hold integers here, so they are \<open>int\<close>.
\<close>

datatype suit = Hearts | Diamonds | Clubs | Spades

record card =
  rank :: int
  suit :: suit

definition suits :: "suit list" where
  "suits = [Hearts, Diamonds, Clubs, Spades]"

text \<open>
  \<^verbatim>\<open>Math.floor(Math.random() * n)\<close> is an integer of \<open>{0, \<dots>, n - 1}\<close>. The source of
  randomness is an input of the model: one natural number \<open>r\<close> for each call of
  \<^verbatim>\<open>Math.random()\<close>, read as \<open>r mod n\<close>.
\<close>

definition randomInt :: "nat \<Rightarrow> nat \<Rightarrow> nat" where
  "randomInt n r = r mod n"

definition drawCard :: "nat \<Rightarrow> nat \<Rightarrow> card" where
  "drawCard r1 r2 =
     \<lparr>rank = int (randomInt 13 r1) + 1, suit = suits ! randomInt (length suits) r2\<rparr>"

subsection \<open>scoreHand\<close>

text \<open>
  The \<^verbatim>\<open>for\<close> loop of \<^verbatim>\<open>scoreHand\<close> carries the pair \<open>(score, aces)\<close> through the hand;
  the \<^verbatim>\<open>while\<close> loop takes 10 off the score once per ace as long as the score is above 21.
\<close>

fun scoreHand_for :: "card list \<Rightarrow> int \<Rightarrow> nat \<Rightarrow> int \<times> nat" where
  "scoreHand_for [] score aces = (score, aces)"
| "scoreHand_for (c # hand) score aces =
     (if rank c = 1 then scoreHand_for hand (score + 11) (aces + 1)
      else if rank c > 10 then scoreHand_for hand (score + 10) aces
      else scoreHand_for hand (score + rank c) aces)"

fun scoreHand_while :: "int \<Rightarrow> nat \<Rightarrow> int \<times> nat" where
  "scoreHand_while score aces =
     (if score > 21 \<and> aces > 0 then scoreHand_while (score - 10) (aces - 1)
      else (score, aces))"

declare scoreHand_while.simps [simp del]

definition scoreHand :: "card list \<Rightarrow> int" where
  "scoreHand hand =
     (case scoreHand_for hand 0 0 of (score, aces) \<Rightarrow> fst (scoreHand_while score aces))"

text \<open>Reference notions the claims speak about: the value of a card with the ace at 11,
  the total with every ace at 11, the number of aces, and the total with every ace at 1.\<close>

definition cardValue :: "card \<Rightarrow> int" where
  "cardValue c = (if rank c = 1 then 11 else if rank c > 10 then 10 else rank c)"

definition softTotal :: "card list \<Rightarrow> int" where
  "softTotal hand = sum_list (map cardValue hand)"

definition aceCount :: "card list \<Rightarrow> nat" where
  "aceCount hand = length (filter (\<lambda>c. rank c = 1) hand)"

definition hardTotal :: "card list \<Rightarrow> int" where
  "hardTotal hand = softTotal hand - 10 * int (aceCount hand)"

subsection \<open>The session store and the replies\<close>

text \<open>
  \<^verbatim>\<open>games\<close> is the module's \<^verbatim>\<open>Map\<close> from user name to the object
  \<^verbatim>\<open>{ playerHand, dealerHand, betAmount }\<close>. The HTTP routes and the gRPC methods share it.
  Amounts are JavaScript numbers; they are modelled as real numbers (no rounding, no NaN).
\<close>

record bj_game =
  g_playerHand :: "card list"
  g_dealerHand :: "card list"
  g_betAmount :: real

type_synonym games = "string \<rightharpoonup> bj_game"

datatype grpc_status = INVALID_ARGUMENT | PERMISSION_DENIED

text \<open>
  What a handler answers: the JSON body or gRPC message, an HTTP error status with its
  \<^verbatim>\<open>error\<close> text, a gRPC error code with its message, or the \<^verbatim>\<open>TypeError\<close> that
  \<^verbatim>\<open>scoreHand([g.dealerHand[0]])\<close> throws when the dealer's hand is empty.
\<close>

datatype 'a reply =
    Reply 'a
  | HttpError nat string
  | GrpcError grpc_status string
  | TypeError

text \<open>\<^verbatim>\<open>p.Username || 'Anonymous'\<close>: a missing or empty name is replaced.\<close>

definition usernameOr :: "string option \<Rightarrow> string" where
  "usernameOr u = (case u of None \<Rightarrow> ''Anonymous'' | Some n \<Rightarrow> if n = [] then ''Anonymous'' else n)"

record deal_reply =
  deal_playerHand :: "card list"
  deal_dealerHand :: "card list"
  deal_playerScore :: int
  deal_dealerScore :: int
  deal_betAmount :: real

record hit_reply =
  newCard :: card
  hit_playerScore :: int
  hit_dealerScore :: int

record stand_reply =
  dealerFinalHand :: "card list"
  stand_dealerScore :: int
  stand_result :: string
  stand_payout :: real

record double_reply =
  double_newCard :: card
  double_playerScore :: int
  double_dealerScore :: int
  additionalBet :: real

subsection \<open>HTTP routes\<close>

text \<open>
  \<^verbatim>\<open>app.post('/deal')\<close>. \<open>rnd\<close> gives the successive values of \<^verbatim>\<open>Math.random()\<close>: two for
  each card. \<^verbatim>\<open>Number(p.BetAmount || 10)\<close>: a missing or zero bet becomes 10.
\<close>

definition deal :: "games \<Rightarrow> string option \<Rightarrow> real option \<Rightarrow> (nat \<Rightarrow> nat) \<Rightarrow> deal_reply reply \<times> games" where
  "deal games Username BetAmount rnd =
     (let bet = (case BetAmount of None \<Rightarrow> 10 | Some b \<Rightarrow> if b = 0 then 10 else b);
          user = usernameOr Username;
          ph = [drawCard (rnd 0) (rnd 1), drawCard (rnd 2) (rnd 3)];
          d0 = drawCard (rnd 4) (rnd 5);
          dh = [d0, drawCard (rnd 6) (rnd 7)]
      in (Reply \<lparr>deal_playerHand = ph, deal_dealerHand = dh,
                 deal_playerScore = scoreHand ph,
                 deal_dealerScore = (if scoreHand ph \<ge> 21 then scoreHand dh else scoreHand [d0]),
                 deal_betAmount = bet\<rparr>,
          games(user \<mapsto> \<lparr>g_playerHand = ph, g_dealerHand = dh, g_betAmount = bet\<rparr>)))"

text \<open>
  \<^verbatim>\<open>app.post('/hit')\<close>. The new card is pushed on the stored hand before the scores are
  computed, so the store holds it also when the score of the dealer's first card throws.
\<close>

definition hit :: "games \<Rightarrow> string option \<Rightarrow> nat \<Rightarrow> nat \<Rightarrow> hit_reply reply \<times> games" where
  "hit games Username r1 r2 =
     (let user = usernameOr Username in
      case games user of
        None \<Rightarrow> (HttpError 400 ''No active hand'', games)
      | Some g \<Rightarrow>
          (let card = drawCard r1 r2;
               g' = g\<lparr>g_playerHand := g_playerHand g @ [card]\<rparr>;
               games' = games(user \<mapsto> g')
           in case g_dealerHand g' of
                [] \<Rightarrow> (TypeError, games')
              | d # _ \<Rightarrow>
                  (Reply \<lparr>newCard = card, hit_playerScore = scoreHand (g_playerHand g'),
                          hit_dealerScore = scoreHand [d]\<rparr>, games')))"

text \<open>
  The dealer's loop \<^verbatim>\<open>while (scoreHand(g.dealerHand) < 17) g.dealerHand.push(drawCard())\<close>;
  \<open>i\<close> counts the values of \<open>rnd\<close> already used.
\<close>

function dealerDraw :: "(nat \<Rightarrow> nat) \<Rightarrow> nat \<Rightarrow> card list \<Rightarrow> card list" where
  "dealerDraw rnd i hand =
     (if scoreHand hand < 17
      then dealerDraw rnd (i + 2) (hand @ [drawCard (rnd i) (rnd (i + 1))])
      else hand)"
  by pat_completeness auto

text \<open>The settlement of \<^verbatim>\<open>/stand\<close>: the result string, then the payout.\<close>

definition settle_result :: "int \<Rightarrow> int \<Rightarrow> string" where
  "settle_result playerScore dealerScore =
     (if playerScore > 21 then ''lose''
      else if dealerScore > 21 \<or> playerScore > dealerScore then ''win''
      else if playerScore = dealerScore then ''push''
      else ''lose'')"

definition settle_payout :: "string \<Rightarrow> real \<Rightarrow> real" where
  "settle_payout res bet =
     (if res = ''win'' then bet * 2 else if res = ''push'' then bet else 0)"

definition stand :: "games \<Rightarrow> string option \<Rightarrow> (nat \<Rightarrow> nat) \<Rightarrow> stand_reply reply \<times> games" where
  "stand games Username rnd =
     (let user = usernameOr Username in
      case games user of
        None \<Rightarrow> (HttpError 400 ''No active hand'', games)
      | Some g \<Rightarrow>
          (let dh = dealerDraw rnd 0 (g_dealerHand g);
               playerScore = scoreHand (g_playerHand g);
               dealerScore = scoreHand dh;
               res = settle_result playerScore dealerScore;
               pay = settle_payout res (g_betAmount g)
           in (Reply \<lparr>dealerFinalHand = dh, stand_dealerScore = dealerScore,
                      stand_result = res, stand_payout = pay\<rparr>,
               games(user := None))))"

text \<open>
  \<^verbatim>\<open>app.post('/double')\<close>. \<open>doubleDownEnabled\<close> is the value of the feature flag
  \<^verbatim>\<open>blackjack.double-down\<close>, read from the flag provider after the session check.
\<close>

definition double :: "games \<Rightarrow> string option \<Rightarrow> bool \<Rightarrow> nat \<Rightarrow> nat \<Rightarrow> double_reply reply \<times> games" where
  "double games Username doubleDownEnabled r1 r2 =
     (let user = usernameOr Username in
      case games user of
        None \<Rightarrow> (HttpError 400 ''No active hand'', games)
      | Some g \<Rightarrow>
          if \<not> doubleDownEnabled then (HttpError 403 ''Double-down feature is disabled'', games)
          else
            (let card = drawCard r1 r2;
                 g' = g\<lparr>g_playerHand := g_playerHand g @ [card], g_betAmount := g_betAmount g * 2\<rparr>;
                 games' = games(user \<mapsto> g')
             in case g_dealerHand g' of
                  [] \<Rightarrow> (TypeError, games')
                | d # _ \<Rightarrow>
                    (Reply \<lparr>double_newCard = card, double_playerScore = scoreHand (g_playerHand g'),
                            double_dealerScore = scoreHand [d], additionalBet = g_betAmount g\<rparr>,
                     games')))"

subsection \<open>gRPC methods of BlackjackServiceImpl\<close>

text \<open>
  The gRPC methods work on the same \<^verbatim>\<open>games\<close> map and mirror the session in Redis. The
  Redis client (\<^verbatim>\<open>common/redis\<close>) is a collaborator outside this service: its \<^verbatim>\<open>set\<close> and
  \<^verbatim>\<open>del\<close> are parameters acting on a Redis state of any type \<open>'r\<close>.
\<close>

record 'r redis =
  redis_set :: "string \<Rightarrow> bj_game \<Rightarrow> 'r \<Rightarrow> 'r"
  redis_del :: "string \<Rightarrow> 'r \<Rightarrow> 'r"

definition gameStateKey :: "string \<Rightarrow> string" where
  "gameStateKey user = ''blackjack:'' @ user @ '':state''"

definition Hit ::
  "'r redis \<Rightarrow> games \<times> 'r \<Rightarrow> string option \<Rightarrow> nat \<Rightarrow> nat \<Rightarrow> hit_reply reply \<times> (games \<times> 'r)" where
  "Hit rd st username r1 r2 =
     (let user = usernameOr username in
      case fst st user of
        None \<Rightarrow> (GrpcError INVALID_ARGUMENT ''No active hand'', st)
      | Some g \<Rightarrow>
          (let card = drawCard r1 r2;
               g' = g\<lparr>g_playerHand := g_playerHand g @ [card]\<rparr>;
               games' = (fst st)(user \<mapsto> g')
           in case g_dealerHand g' of
                [] \<Rightarrow> (TypeError, (games', snd st))
              | d # _ \<Rightarrow>
                  (Reply \<lparr>newCard = card, hit_playerScore = scoreHand (g_playerHand g'),
                          hit_dealerScore = scoreHand [d]\<rparr>,
                   (games', redis_set rd (gameStateKey user) g' (snd st)))))"

text \<open>The argument of the fire-and-forget \<^verbatim>\<open>recordGameResult\<close> call of \<^verbatim>\<open>Stand\<close>.\<close>

record bj_recorded =
  rec_username :: string
  rec_game :: string
  rec_action :: string
  rec_betAmount :: real
  rec_payout :: real
  rec_win :: bool
  rec_result :: string

definition Stand ::
  "'r redis \<Rightarrow> games \<times> 'r \<Rightarrow> string option \<Rightarrow> (nat \<Rightarrow> nat)
     \<Rightarrow> stand_reply reply \<times> bj_recorded option \<times> (games \<times> 'r)" where
  "Stand rd st username rnd =
     (let user = usernameOr username in
      case fst st user of
        None \<Rightarrow> (GrpcError INVALID_ARGUMENT ''No active hand'', None, st)
      | Some g \<Rightarrow>
          (let dh = dealerDraw rnd 0 (g_dealerHand g);
               playerScore = scoreHand (g_playerHand g);
               dealerScore = scoreHand dh;
               res = settle_result playerScore dealerScore;
               pay = settle_payout res (g_betAmount g)
           in (Reply \<lparr>dealerFinalHand = dh, stand_dealerScore = dealerScore,
                      stand_result = res, stand_payout = pay\<rparr>,
               Some \<lparr>rec_username = user, rec_game = ''blackjack'', rec_action = ''stand'',
                     rec_betAmount = g_betAmount g, rec_payout = pay,
                     rec_win = (res = ''win''), rec_result = res\<rparr>,
               ((fst st)(user := None), redis_del rd (gameStateKey user) (snd st)))))"

definition Double ::
  "games \<times> 'r \<Rightarrow> string option \<Rightarrow> bool \<Rightarrow> nat \<Rightarrow> nat \<Rightarrow> double_reply reply \<times> (games \<times> 'r)" where
  "Double st username doubleDownEnabled r1 r2 =
     (let user = usernameOr username in
      case fst st user of
        None \<Rightarrow> (GrpcError INVALID_ARGUMENT ''No active hand'', st)
      | Some g \<Rightarrow>
          if \<not> doubleDownEnabled
          then (GrpcError PERMISSION_DENIED ''Double-down feature is disabled'', st)
          else
            (let card = drawCard r1 r2;
                 g' = g\<lparr>g_playerHand := g_playerHand g @ [card], g_betAmount := g_betAmount g * 2\<rparr>;
                 games' = (fst st)(user \<mapsto> g')
             in case g_dealerHand g' of
                  [] \<Rightarrow> (TypeError, (games', snd st))
                | d # _ \<Rightarrow>
                    (Reply \<lparr>double_newCard = card, double_playerScore = scoreHand (g_playerHand g'),
                            double_dealerScore = scoreHand [d], additionalBet = g_betAmount g\<rparr>,
                     (games', snd st))))"

section \<open>Dice service (services/dice, Go)\<close>

record RollRequest =
  BetAmount :: real
  BetType :: string

record RollResponse =
  Dice1 :: int
  Dice2 :: int
  Sum :: int
  Win :: bool
  Payout :: real
  resp_BetAmount :: real
  resp_BetType :: string
  PayoutMultiplier :: real

text \<open>
  \<^verbatim>\<open>rollHandler\<close>. The request is its HTTP method and its decoded body (\<open>None\<close> when the
  JSON does not decode). \<open>rnd\<close> is the generator that \<^verbatim>\<open>main\<close> seeds for the service; the
  two dice are the constants of the source, whose calls of the generator are commented out.
\<close>

definition rollHandler :: "(nat \<Rightarrow> nat) \<Rightarrow> string \<Rightarrow> RollRequest option \<Rightarrow> RollResponse reply" where
  "rollHandler rnd method body =
     (if method \<noteq> ''POST'' then HttpError 405 ''Method not allowed''
      else case body of
        None \<Rightarrow> HttpError 400 ''Invalid request body''
      | Some req \<Rightarrow>
          (let bet = (if BetAmount req = 0 then 10 else BetAmount req);
               betType = (if BetType req = [] then ''pass'' else BetType req);
               d1 = 4;
               d2 = 3;
               sum = d1 + d2;
               (win, payoutMultiplier) =
                 (if betType = ''pass'' then (sum = 7 \<or> sum = 11, 2)
                  else if betType = ''dont_pass'' then (sum = 2 \<or> sum = 3, 2)
                  else if betType = ''field'' then
                    (sum = 2 \<or> sum = 3 \<or> sum = 4 \<or> sum = 9 \<or> sum = 10 \<or> sum = 11 \<or> sum = 12, 2)
                  else if betType = ''snake_eyes'' then (d1 = 1 \<and> d2 = 1, 30)
                  else if betType = ''boxcars'' then (d1 = 6 \<and> d2 = 6, 30)
                  else if betType = ''seven_out'' then (sum = 7, 4)
                  else (sum = 7 \<or> sum = 11, 2));
               pay = (if win then bet * payoutMultiplier else 0)
           in Reply \<lparr>Dice1 = d1, Dice2 = d2, Sum = sum, Win = win, Payout = pay,
                     resp_BetAmount = bet, resp_BetType = betType,
                     PayoutMultiplier = payoutMultiplier\<rparr>))"

section \<open>Scoring service (services/scoring, Java)\<close>

subsection \<open>Entities and tables\<close>

text \<open>
  \<^verbatim>\<open>LocalDateTime\<close> values are counted in seconds. \<^verbatim>\<open>Double\<close> amounts are real numbers
  (no rounding, no NaN); a \<^verbatim>\<open>Double\<close> or \<^verbatim>\<open>Boolean\<close> that may be \<^verbatim>\<open>null\<close> is an option.
  A table is the list of its rows. A query fixes the order of its answer only as far as
  its \<^verbatim>\<open>ORDER BY\<close> does: the order in which the database yields the rows that the query
  leaves unordered is the parameter \<open>scan\<close>, a rearrangement of the rows that the query
  selects, and the sort of the query is applied to what \<open>scan\<close> yields.
\<close>

type_synonym time = int

record PlayerScore =
  ps_id :: nat
  ps_username :: string
  ps_role :: string
  ps_game :: string
  ps_score :: real
  ps_timestamp :: time
  ps_metadata :: "string option"

record GameResult =
  gr_id :: nat
  gr_username :: string
  gr_game :: string
  gr_action :: string
  gr_betAmount :: "real option"
  gr_payout :: "real option"
  gr_win :: "bool option"
  gr_result :: "string option"
  gr_gameData :: "string option"
  gr_metadata :: "string option"
  gr_timestamp :: time

record db =
  gameResults :: "GameResult list"
  playerScores :: "PlayerScore list"

type_synonym scan_order = "PlayerScore list \<Rightarrow> PlayerScore list"

datatype exn = NullPointerException | IllegalArgumentException | DataAccessException

text \<open>The body of \<^verbatim>\<open>POST /api/scoring/game-result\<close> (\<^verbatim>\<open>GameResultRequest\<close>).\<close>

record GameResultRequest =
  req_username :: string
  req_game :: string
  req_action :: string
  req_betAmount :: "real option"
  req_payout :: "real option"
  req_win :: "bool option"
  req_result :: "string option"
  req_gameData :: "string option"
  req_metadata :: "string option"

subsection \<open>Repositories\<close>

text \<open>\<^verbatim>\<open>JpaRepository.save\<close>: a new entity gets a fresh id and a new row; an entity that
  has an id replaces the row with that id.\<close>

definition freshId :: "nat list \<Rightarrow> nat" where
  "freshId ids = Suc (fold max ids 0)"

definition save_GameResult :: "GameResult \<Rightarrow> db \<Rightarrow> GameResult \<times> db" where
  "save_GameResult r d =
     (let r' = r\<lparr>gr_id := freshId (map gr_id (gameResults d))\<rparr>
      in (r', d\<lparr>gameResults := gameResults d @ [r']\<rparr>))"

definition save_new_PlayerScore :: "PlayerScore \<Rightarrow> db \<Rightarrow> PlayerScore \<times> db" where
  "save_new_PlayerScore p d =
     (let p' = p\<lparr>ps_id := freshId (map ps_id (playerScores d))\<rparr>
      in (p', d\<lparr>playerScores := playerScores d @ [p']\<rparr>))"

definition save_PlayerScore :: "PlayerScore \<Rightarrow> db \<Rightarrow> PlayerScore \<times> db" where
  "save_PlayerScore p d =
     (p, d\<lparr>playerScores := map (\<lambda>q. if ps_id q = ps_id p then p else q) (playerScores d)\<rparr>)"

text \<open>\<^verbatim>\<open>PlayerScoreRepository.findByUsernameAndGameOrderByTimestampDesc\<close>.\<close>

definition findByUsernameAndGameOrderByTimestampDesc ::
  "scan_order \<Rightarrow> db \<Rightarrow> string \<Rightarrow> string \<Rightarrow> PlayerScore list" where
  "findByUsernameAndGameOrderByTimestampDesc scan d username game =
     sort_key (\<lambda>p. - ps_timestamp p)
       (scan (filter (\<lambda>p. ps_username p = username \<and> ps_game p = game) (playerScores d)))"

text \<open>\<^verbatim>\<open>PlayerScoreRepository.findFirstByUsernameAndGameOrderByScoreDesc\<close>.\<close>

definition findFirstByUsernameAndGameOrderByScoreDesc ::
  "scan_order \<Rightarrow> db \<Rightarrow> string \<Rightarrow> string \<Rightarrow> PlayerScore option" where
  "findFirstByUsernameAndGameOrderByScoreDesc scan d username game =
     (case sort_key (\<lambda>p. - ps_score p)
             (scan (filter (\<lambda>p. ps_username p = username \<and> ps_game p = game) (playerScores d))) of
        [] \<Rightarrow> None
      | p # _ \<Rightarrow> Some p)"

text \<open>
  The read side of the two repositories, as the service sees it: each query returns its
  value or throws. \<open>jpa\<close> below is the implementation that the \<^verbatim>\<open>@Query\<close> annotations
  give over the tables.
\<close>

record repositories =
  countTotalByGame :: "string \<Rightarrow> exn + int"
  countWinsByGame :: "string \<Rightarrow> exn + int"
  sumBetAmountsByGame :: "string \<Rightarrow> exn + real option"
  sumPayoutsByGame :: "string \<Rightarrow> exn + real option"
  findByGameAndTimestampBetweenOrderByTimestampDesc :: "string \<Rightarrow> time \<Rightarrow> time \<Rightarrow> exn + GameResult list"
  findAll :: "exn + PlayerScore list"
  findTopNByGame :: "string \<Rightarrow> int \<Rightarrow> exn + PlayerScore list"

definition positiveBet :: "GameResult \<Rightarrow> bool" where
  "positiveBet g = (case gr_betAmount g of None \<Rightarrow> False | Some b \<Rightarrow> b > 0)"

definition amount :: "real option \<Rightarrow> real" where
  "amount a = (case a of None \<Rightarrow> 0 | Some x \<Rightarrow> x)"

definition jpa :: "scan_order \<Rightarrow> db \<Rightarrow> repositories" where
  "jpa scan d =
     \<lparr>countTotalByGame = (\<lambda>game.
        Inr (int (length (filter (\<lambda>g. gr_game g = game \<and> positiveBet g) (gameResults d))))),
      countWinsByGame = (\<lambda>game.
        Inr (int (length (filter (\<lambda>g. gr_game g = game \<and> gr_win g = Some True \<and> positiveBet g)
                      (gameResults d))))),
      sumBetAmountsByGame = (\<lambda>game.
        Inr (Some (sum_list (map (\<lambda>g. amount (gr_betAmount g))
               (filter (\<lambda>g. gr_game g = game \<and> positiveBet g) (gameResults d)))))),
      sumPayoutsByGame = (\<lambda>game.
        Inr (Some (sum_list (map (\<lambda>g. amount (gr_payout g))
               (filter (\<lambda>g. gr_game g = game \<and> positiveBet g) (gameResults d)))))),
      findByGameAndTimestampBetweenOrderByTimestampDesc = (\<lambda>game start end.
        Inr (sort_key (\<lambda>g. - gr_timestamp g)
               (filter (\<lambda>g. gr_game g = game \<and> start \<le> gr_timestamp g \<and> gr_timestamp g \<le> end
                             \<and> positiveBet g) (gameResults d)))),
      findAll = Inr (scan (playerScores d)),
      findTopNByGame = (\<lambda>game limit.
        if limit < 0 then Inl DataAccessException
        else Inr (take (nat limit)
               (sort_key (\<lambda>p. - ps_score p)
                  (scan (filter (\<lambda>p. ps_game p = game) (playerScores d))))))\<rparr>"

subsection \<open>ScoringService: leaderboard\<close>

text \<open>
  \<^verbatim>\<open>Collectors.toMap(PlayerScore::getUsername, score -> score, (a, b) -> ...)\<close>: the entries
  are kept here in the order in which their keys first appear. The map is a \<^verbatim>\<open>HashMap\<close>,
  whose \<^verbatim>\<open>values()\<close> come in an order fixed by the hash codes of the keys: that order is
  the parameter \<open>valuesOrder\<close>, a rearrangement of the entries.
\<close>

fun toMap_merge :: "(string \<times> PlayerScore) list \<Rightarrow> PlayerScore \<Rightarrow> (string \<times> PlayerScore) list" where
  "toMap_merge [] b = [(ps_username b, b)]"
| "toMap_merge ((k, a) # m) b =
     (if k = ps_username b then (k, if ps_score a > ps_score b then a else b) # m
      else (k, a) # toMap_merge m b)"

definition toMap :: "PlayerScore list \<Rightarrow> (string \<times> PlayerScore) list" where
  "toMap rows = foldl toMap_merge [] rows"

type_synonym values_order = "(string \<times> PlayerScore) list \<Rightarrow> (string \<times> PlayerScore) list"

definition getTopPlayers :: "repositories \<Rightarrow> values_order \<Rightarrow> string \<Rightarrow> int \<Rightarrow> exn + PlayerScore list" where
  "getTopPlayers repo valuesOrder game limit =
     (if game = ''all'' then
        (case findAll repo of
           Inl e \<Rightarrow> Inl e
         | Inr rows \<Rightarrow>
             if limit < 0 then Inl IllegalArgumentException
             else Inr (take (nat limit)
                    (sort_key (\<lambda>p. - ps_score p) (map snd (valuesOrder (toMap rows))))))
      else findTopNByGame repo game limit)"

subsection \<open>ScoringService: dashboard\<close>

record ScoreResponse =
  sr_username :: string
  sr_role :: string
  sr_game :: string
  sr_score :: real
  sr_rank :: int
  sr_initialBet :: "real option"
  sr_winnings :: real

record DashboardStats =
  ds_game :: string
  ds_totalGames :: int
  ds_totalWins :: int
  ds_totalLosses :: int
  ds_winRate :: real
  ds_totalBetAmount :: real
  ds_totalPayout :: real
  ds_netRevenue :: real
  ds_averageBetAmount :: real
  ds_averagePayout :: real
  ds_recentGames :: int
  ds_topPlayers :: "ScoreResponse list"

text \<open>
  \<^verbatim>\<open>ObjectMapper.readValue(metadata, Map.class)\<close> is the parameter \<open>readValue\<close>: \<open>None\<close> when
  it throws, else the map of the JSON object, whose values are numbers or something else.
  The \<^verbatim>\<open>try\<close> block stops at the first value that is not a number and keeps what it has
  assigned so far.
\<close>

datatype json_value = JNumber real | JOther

type_synonym read_value = "string \<Rightarrow> (string \<rightharpoonup> json_value) option"

definition metadataFields :: "read_value \<Rightarrow> PlayerScore \<Rightarrow> real option \<times> real" where
  "metadataFields readValue p =
     (case ps_metadata p of
        None \<Rightarrow> (None, ps_score p)
      | Some md \<Rightarrow>
          if md = [] then (None, ps_score p)
          else (case readValue md of
                  None \<Rightarrow> (None, ps_score p)
                | Some m \<Rightarrow>
                    (case m ''initial_bet'' of
                       Some JOther \<Rightarrow> (None, ps_score p)
                     | ib \<Rightarrow>
                         (let initialBet = (case ib of Some (JNumber b) \<Rightarrow> Some b | _ \<Rightarrow> None)
                          in case m ''winnings'' of
                               Some (JNumber w) \<Rightarrow> (initialBet, w)
                             | _ \<Rightarrow> (initialBet, ps_score p)))))"

definition toScoreResponse :: "read_value \<Rightarrow> nat \<Rightarrow> PlayerScore \<Rightarrow> ScoreResponse" where
  "toScoreResponse readValue i p =
     (case metadataFields readValue p of
        (initialBet, winnings) \<Rightarrow>
          \<lparr>sr_username = ps_username p, sr_role = ps_role p, sr_game = ps_game p,
           sr_score = ps_score p, sr_rank = int i + 1,
           sr_initialBet = initialBet, sr_winnings = winnings\<rparr>)"

text \<open>
  \<^verbatim>\<open>getDashboardStats\<close>. \<open>now\<close> is the reading of the clock; the window of recent games is
  the 24 hours before it. An exception of a query leaves the method at once.
\<close>

definition getDashboardStats ::
  "repositories \<Rightarrow> values_order \<Rightarrow> read_value \<Rightarrow> time \<Rightarrow> string \<Rightarrow> exn + DashboardStats" where
  "getDashboardStats repo valuesOrder readValue now game =
     (case countTotalByGame repo game of Inl e \<Rightarrow> Inl e | Inr totalGames \<Rightarrow>
      case countWinsByGame repo game of Inl e \<Rightarrow> Inl e | Inr totalWins \<Rightarrow>
      case sumBetAmountsByGame repo game of Inl e \<Rightarrow> Inl e | Inr totalBetAmount \<Rightarrow>
      case sumPayoutsByGame repo game of Inl e \<Rightarrow> Inl e | Inr totalPayout \<Rightarrow>
      case findByGameAndTimestampBetweenOrderByTimestampDesc repo game (now - 24 * 3600) now of
        Inl e \<Rightarrow> Inl e | Inr recentResults \<Rightarrow>
      case getTopPlayers repo valuesOrder game 10 of Inl e \<Rightarrow> Inl e | Inr topPlayerScores \<Rightarrow>
        Inr \<lparr>ds_game = game,
             ds_totalGames = totalGames,
             ds_totalWins = totalWins,
             ds_totalLosses = totalGames - totalWins,
             ds_winRate = (if totalGames > 0 then real_of_int totalWins / real_of_int totalGames * 100
                        else 0),
             ds_totalBetAmount = amount totalBetAmount,
             ds_totalPayout = amount totalPayout,
             ds_netRevenue = amount totalBetAmount - amount totalPayout,
             ds_averageBetAmount = (if totalGames > 0 then amount totalBetAmount / real_of_int totalGames
                                 else 0),
             ds_averagePayout = (if totalGames > 0 then amount totalPayout / real_of_int totalGames
                              else 0),
             ds_recentGames = int (length recentResults),
             ds_topPlayers = map (\<lambda>(i, p). toScoreResponse readValue i p)
                            (zip [0..<length topPlayerScores] topPlayerScores)\<rparr>)"

definition emptyStats :: "string \<Rightarrow> DashboardStats" where
  "emptyStats game =
     \<lparr>ds_game = game, ds_totalGames = 0, ds_totalWins = 0, ds_totalLosses = 0, ds_winRate = 0,
      ds_totalBetAmount = 0, ds_totalPayout = 0, ds_netRevenue = 0, ds_averageBetAmount = 0,
      ds_averagePayout = 0, ds_recentGames = 0, ds_topPlayers = []\<rparr>"

definition getAllGamesDashboardStats ::
  "repositories \<Rightarrow> values_order \<Rightarrow> read_value \<Rightarrow> time \<Rightarrow> DashboardStats list" where
  "getAllGamesDashboardStats repo valuesOrder readValue now =
     map (\<lambda>game. case getDashboardStats repo valuesOrder readValue now game of
                   Inr stats \<Rightarrow> stats
                 | Inl e \<Rightarrow> emptyStats game)
       [''slots'', ''roulette'', ''dice'', ''blackjack'']"

subsection \<open>ScoringService.recordScore, recordGameResult and the controller\<close>


text \<open>
  \<^verbatim>\<open>recordGameResult\<close> is \<^verbatim>\<open>@Transactional\<close>: when it throws, nothing of what it saved stays, so
  the model returns the exception alone and the caller keeps the database it had. The
  span builder of the first save unboxes \<^verbatim>\<open>win\<close> and throws when it is \<^verbatim>\<open>null\<close>.
  \<open>format\<close> is the \<^verbatim>\<open>String.format\<close> call that renders the metadata of the score row; its
  third argument \<^verbatim>\<open>payout - betAmount\<close> unboxes both amounts and throws when one of them
  is \<^verbatim>\<open>null\<close>. \<open>now\<close> is the reading of the clock, also for the rows that are created.
\<close>

type_synonym metadata_format = "real \<Rightarrow> real \<Rightarrow> real \<Rightarrow> time \<Rightarrow> string"

definition recordGameResult ::
  "scan_order \<Rightarrow> metadata_format \<Rightarrow> time \<Rightarrow> db \<Rightarrow> GameResultRequest
     \<Rightarrow> exn + (GameResult \<times> db)" where
  "recordGameResult scan format now d req =
     (let gameResult =
            \<lparr>gr_id = 0, gr_username = req_username req, gr_game = req_game req,
             gr_action = req_action req, gr_betAmount = req_betAmount req,
             gr_payout = req_payout req, gr_win = req_win req, gr_result = req_result req,
             gr_gameData = req_gameData req, gr_metadata = req_metadata req,
             gr_timestamp = now\<rparr>
      in if req_win req = None then Inl NullPointerException
         else
           (let (savedResult, d1) = save_GameResult gameResult d;
                existingScores =
                  findByUsernameAndGameOrderByTimestampDesc scan d1 (req_username req) (req_game req)
            in case (req_betAmount req, req_payout req) of
                 (Some betAmount, Some payout) \<Rightarrow>
                   (let scoreMetadata = format betAmount payout (payout - betAmount) now
                    in case existingScores of
                         existingScore # _ \<Rightarrow>
                           if payout > ps_score existingScore
                           then Inr (savedResult,
                                  snd (save_PlayerScore
                                         (existingScore\<lparr>ps_score := payout, ps_timestamp := now,
                                            ps_metadata := Some scoreMetadata\<rparr>) d1))
                           else Inr (savedResult,
                                  snd (save_PlayerScore (existingScore\<lparr>ps_timestamp := now\<rparr>) d1))
                       | [] \<Rightarrow>
                           Inr (savedResult,
                             snd (save_new_PlayerScore
                                    \<lparr>ps_id = 0, ps_username = req_username req, ps_role = ''player'',
                                     ps_game = req_game req, ps_score = payout, ps_timestamp = now,
                                     ps_metadata = Some scoreMetadata\<rparr> d1)))
               | _ \<Rightarrow> Inl NullPointerException))"

text \<open>
  \<^verbatim>\<open>ScoringController.recordGameResult\<close>: 400 for a bet that is \<^verbatim>\<open>null\<close> or not above zero,
  201 with the saved result, or the exception of the service. The span builder of the
  controller unboxes \<^verbatim>\<open>win\<close> as well, before the service is called.
\<close>

datatype 'a ResponseEntity = Created 'a | BadRequest | Thrown exn

definition ScoringController_recordGameResult ::
  "scan_order \<Rightarrow> metadata_format \<Rightarrow> time \<Rightarrow> db \<Rightarrow> GameResultRequest
     \<Rightarrow> GameResult ResponseEntity \<times> db" where
  "ScoringController_recordGameResult scan format now d req =
     (case req_betAmount req of
        None \<Rightarrow> (BadRequest, d)
      | Some b \<Rightarrow>
          if b \<le> 0 then (BadRequest, d)
          else if req_win req = None then (Thrown NullPointerException, d)
          else (case recordGameResult scan format now d req of
                  Inl e \<Rightarrow> (Thrown e, d)
                | Inr (res, d') \<Rightarrow> (Created res, d')))"

text \<open>\<^verbatim>\<open>ScoringService.getBestScoreForUser\<close>: the row of the highest score of a player at a
  game, if there is one.\<close>

definition getBestScoreForUser :: "scan_order \<Rightarrow> db \<Rightarrow> string \<Rightarrow> string \<Rightarrow> PlayerScore option" where
  "getBestScoreForUser scan d username game =
     findFirstByUsernameAndGameOrderByScoreDesc scan d username game"

subsection \<open>Notions used to state the properties of the recorder\<close>

text \<open>The score row that \<^verbatim>\<open>recordGameResult\<close> reads for a player and a game (the first of
  \<^verbatim>\<open>existingScores\<close>), its best payout (\<^verbatim>\<open>currentBestPayout\<close>) and its timestamp of last
  activity.\<close>

definition storedScore :: "scan_order \<Rightarrow> db \<Rightarrow> string \<Rightarrow> string \<Rightarrow> PlayerScore option" where
  "storedScore scan d username game =
     (case findByUsernameAndGameOrderByTimestampDesc scan d username game of
        [] \<Rightarrow> None | p # _ \<Rightarrow> Some p)"

definition bestPayout :: "scan_order \<Rightarrow> db \<Rightarrow> string \<Rightarrow> string \<Rightarrow> real option" where
  "bestPayout scan d username game = map_option ps_score (storedScore scan d username game)"

definition lastUpdated :: "scan_order \<Rightarrow> db \<Rightarrow> string \<Rightarrow> string \<Rightarrow> time option" where
  "lastUpdated scan d username game = map_option ps_timestamp (storedScore scan d username game)"

text \<open>The player and the game of a score row.\<close>

definition scoreKey :: "PlayerScore \<Rightarrow> string \<times> string" where
  "scoreKey p = (ps_username p, ps_game p)"



text \<open>What \<^verbatim>\<open>recordGameResult\<close> does to the row it found, and the row it creates otherwise.\<close>

definition updatedScore :: "metadata_format \<Rightarrow> time \<Rightarrow> real \<Rightarrow> real \<Rightarrow> PlayerScore \<Rightarrow> PlayerScore" where
  "updatedScore format now bet pay e =
     (if pay > ps_score e
      then e\<lparr>ps_score := pay, ps_timestamp := now,
             ps_metadata := Some (format bet pay (pay - bet) now)\<rparr>
      else e\<lparr>ps_timestamp := now\<rparr>)"


text \<open>A sequence of calls of \<^verbatim>\<open>recordGameResult\<close>; a call that throws leaves the database
  as it was.\<close>

fun recordAll ::
  "scan_order \<Rightarrow> metadata_format \<Rightarrow> db \<Rightarrow> (time \<times> GameResultRequest) list \<Rightarrow> db" where
  "recordAll scan format d [] = d"
| "recordAll scan format d ((now, req) # reqs) =
     (case recordGameResult scan format now d req of
        Inl e \<Rightarrow> recordAll scan format d reqs
      | Inr (res, d') \<Rightarrow> recordAll scan format d' reqs)"

definition emptyDb :: db where
  "emptyDb = \<lparr>gameResults = [], playerScores = []\<rparr>"

text \<open>What holds of the map while \<^verbatim>\<open>toMap\<close> folds the rows into it.\<close>

definition bestPerUser :: "(string \<times> PlayerScore) list \<Rightarrow> PlayerScore list \<Rightarrow> bool" where
  "bestPerUser m rows \<longleftrightarrow>
     distinct (map fst m)
   \<and> set (map fst m) = set (map ps_username rows)
   \<and> (\<forall>(k, v)\<in>set m. v \<in> set rows \<and> ps_username v = k
         \<and> (\<forall>p\<in>set rows. ps_username p = k \<longrightarrow> ps_score p \<le> ps_score v))"

subsection \<open>Sample data\<close>

text \<open>A database with one winning round of slots, for the examples.\<close>

definition db1 :: db where
  "db1 = \<lparr>gameResults =
             [\<lparr>gr_id = 1, gr_username = ''alice'', gr_game = ''slots'', gr_action = ''spin'',
               gr_betAmount = Some 10, gr_payout = Some 50, gr_win = Some True,
               gr_result = None, gr_gameData = None, gr_metadata = None, gr_timestamp = 90\<rparr>],
           playerScores = []\<rparr>"

text \<open>Two results of the same player at slots, with payouts 50 and 30.\<close>

definition win50 :: GameResultRequest where
  "win50 = \<lparr>req_username = ''alice'', req_game = ''slots'', req_action = ''spin'',
       req_betAmount = Some 10, req_payout = Some 50, req_win = Some True, req_result = None,
       req_gameData = None, req_metadata = None\<rparr>"


text \<open>A result of a second player with the same payout, and a table of scores with
  two players and two games.\<close>

definition bob50 :: GameResultRequest where
  "bob50 = \<lparr>req_username = ''bob'', req_game = ''slots'', req_action = ''spin'',
       req_betAmount = Some 25, req_payout = Some 50, req_win = Some True, req_result = None,
       req_gameData = None, req_metadata = None\<rparr>"

definition db2 :: db where
  "db2 = \<lparr>gameResults = [],
           playerScores =
             [\<lparr>ps_id = 1, ps_username = ''alice'', ps_role = ''player'', ps_game = ''slots'',
               ps_score = 50, ps_timestamp = 100, ps_metadata = None\<rparr>,
              \<lparr>ps_id = 2, ps_username = ''alice'', ps_role = ''player'', ps_game = ''dice'',
               ps_score = 70, ps_timestamp = 110, ps_metadata = None\<rparr>,
              \<lparr>ps_id = 3, ps_username = ''bob'', ps_role = ''player'', ps_game = ''slots'',
               ps_score = 60, ps_timestamp = 120, ps_metadata = None\<rparr>]\<rparr>"


section \<open>Properties of scoreHand\<close>

lemma scoreHand_for_eq:
  "scoreHand_for hand score aces = (score + softTotal hand, aces + aceCount hand)"
  by (induction hand arbitrary: score aces)
     (simp_all add: softTotal_def aceCount_def cardValue_def)

lemma scoreHand_while_shape:
  "\<exists>k\<le>aces. scoreHand_while score aces = (score - 10 * int k, aces - k)
      \<and> (score - 10 * int k \<le> 21 \<or> k = aces)
      \<and> (\<forall>j<k. score - 10 * int j > 21)"
proof (induction score aces rule: scoreHand_while.induct)
  case (1 score aces)
  show ?case
  proof (cases "score > 21 \<and> aces > 0")
    case False
    then show ?thesis
      by (intro exI[of _ 0]) (auto simp: scoreHand_while.simps[of score aces])
  next
    case True
    from "1.IH"[OF True] obtain k where k: "k \<le> aces - 1"
      "scoreHand_while (score - 10) (aces - 1) = (score - 10 - 10 * int k, aces - 1 - k)"
      "score - 10 - 10 * int k \<le> 21 \<or> k = aces - 1"
      "\<forall>j<k. score - 10 - 10 * int j > 21"
      by blast
    have low: "\<forall>j<Suc k. score - 10 * int j > 21"
    proof (intro allI impI)
      fix j assume j: "j < Suc k"
      show "score - 10 * int j > 21"
      proof (cases j)
        case 0
        with True show ?thesis by simp
      next
        case (Suc i)
        with j have "i < k" by simp
        with k(4) have "score - 10 - 10 * int i > 21" by blast
        with Suc show ?thesis by simp
      qed
    qed
    have "scoreHand_while score aces = (score - 10 * int (Suc k), aces - Suc k)"
      using True k(2) by (simp add: scoreHand_while.simps[of score aces] algebra_simps)
    moreover have "Suc k \<le> aces" using True k(1) by arith
    moreover have "score - 10 * int (Suc k) \<le> 21 \<or> Suc k = aces"
      using True k(1,3) by (cases "k = aces - 1") (simp_all add: algebra_simps)
    ultimately show ?thesis using low by blast
  qed
qed

text \<open>
  Claim C2. For every hand, \<open>scoreHand\<close> starts from the total that counts each ace as 11
  and takes 10 off once per ace while the total is above 21: the result is the soft total
  minus \<open>10 * k\<close> for the least number \<open>k\<close> of aces that brings it to 21 or below, or for all
  the aces when no such number exists. Hence the score is above 21 only when every ace
  already counts as 1.
\<close>

theorem scoreHand_soft_ace_reduction:
  "\<exists>k\<le>aceCount hand.
      scoreHand hand = softTotal hand - 10 * int k
    \<and> (scoreHand hand \<le> 21 \<or> k = aceCount hand)
    \<and> (\<forall>j<k. softTotal hand - 10 * int j > 21)"
  using scoreHand_while_shape[of "aceCount hand" "softTotal hand"]
  by (auto simp: scoreHand_def scoreHand_for_eq)

theorem scoreHand_soft_ace_reduction_witness:
  "aceCount [\<lparr>rank = 1, suit = Hearts\<rparr>, \<lparr>rank = 1, suit = Spades\<rparr>, \<lparr>rank = 9, suit = Clubs\<rparr>] = 2
   \<and> softTotal [\<lparr>rank = 1, suit = Hearts\<rparr>, \<lparr>rank = 1, suit = Spades\<rparr>, \<lparr>rank = 9, suit = Clubs\<rparr>] = 31
   \<and> scoreHand [\<lparr>rank = 1, suit = Hearts\<rparr>, \<lparr>rank = 1, suit = Spades\<rparr>, \<lparr>rank = 9, suit = Clubs\<rparr>] = 21"
  using scoreHand_soft_ace_reduction[of "[\<lparr>rank = 1, suit = Hearts\<rparr>, \<lparr>rank = 1, suit = Spades\<rparr>,
      \<lparr>rank = 9, suit = Clubs\<rparr>]"]
  by (simp add: scoreHand_def scoreHand_while.simps aceCount_def softTotal_def cardValue_def)

section \<open>The dealer's loop terminates\<close>

lemma hardTotal_le_scoreHand: "hardTotal hand \<le> scoreHand hand"
proof -
  from scoreHand_while_shape[of "aceCount hand" "softTotal hand"]
  obtain k where "k \<le> aceCount hand"
    "scoreHand_while (softTotal hand) (aceCount hand) = (softTotal hand - 10 * int k, aceCount hand - k)"
    by blast
  then show ?thesis by (simp add: scoreHand_def scoreHand_for_eq hardTotal_def)
qed

lemma rank_drawCard: "1 \<le> rank (drawCard r1 r2) \<and> rank (drawCard r1 r2) \<le> 13"
  by (simp add: drawCard_def randomInt_def)

lemma hardTotal_snoc_drawCard: "hardTotal hand < hardTotal (hand @ [drawCard r1 r2])"
  using rank_drawCard[of r1 r2]
  by (auto simp: hardTotal_def softTotal_def aceCount_def cardValue_def)

termination dealerDraw
proof (relation "measure (\<lambda>(rnd, i, hand). nat (17 - hardTotal hand))")
  show "wf (measure (\<lambda>(rnd, i, hand). nat (17 - hardTotal hand)))" by simp
next
  fix rnd :: "nat \<Rightarrow> nat" and i :: nat and hand :: "card list"
  assume "scoreHand hand < 17"
  with hardTotal_le_scoreHand[of hand] have "hardTotal hand < 17" by simp
  with hardTotal_snoc_drawCard[of hand "rnd i" "rnd (i + 1)"]
  show "((rnd, i + 2, hand @ [drawCard (rnd i) (rnd (i + 1))]), (rnd, i, hand))
        \<in> measure (\<lambda>(rnd, i, hand). nat (17 - hardTotal hand))"
    by simp
qed

declare dealerDraw.simps [simp del]

lemma dealerDraw_ge_17: "17 \<le> scoreHand (dealerDraw rnd i hand)"
proof (induction rnd i hand rule: dealerDraw.induct)
  case (1 rnd i hand)
  then show ?case by (cases "scoreHand hand < 17") (simp_all add: dealerDraw.simps[of rnd i hand])
qed

text \<open>The cards that the loop pushes, and why it pushed each of them.\<close>

lemma dealerDraw_drawn:
  "\<exists>n. dealerDraw rnd i hand =
         hand @ map (\<lambda>j. drawCard (rnd (i + 2 * j)) (rnd (i + 2 * j + 1))) [0..<n]
     \<and> (\<forall>m<n. scoreHand (hand @ map (\<lambda>j. drawCard (rnd (i + 2 * j)) (rnd (i + 2 * j + 1))) [0..<m]) < 17)"
proof (induction rnd i hand rule: dealerDraw.induct)
  case (1 rnd i hand)
  show ?case
  proof (cases "scoreHand hand < 17")
    case False
    then show ?thesis by (intro exI[of _ 0]) (simp add: dealerDraw.simps[of rnd i hand])
  next
    case True
    let ?c = "drawCard (rnd i) (rnd (i + 1))"
    let ?d = "\<lambda>i j. drawCard (rnd (i + 2 * j)) (rnd (i + 2 * j + 1))"
    from "1.IH"[OF True] obtain n where n:
      "dealerDraw rnd (i + 2) (hand @ [?c]) = (hand @ [?c]) @ map (?d (i + 2)) [0..<n]"
      "\<forall>m<n. scoreHand ((hand @ [?c]) @ map (?d (i + 2)) [0..<m]) < 17"
      by blast
    have shift: "[?c] @ map (?d (i + 2)) [0..<m] = map (?d i) [0..<Suc m]" for m
      by (simp add: upt_rec[of 0 "Suc m"] map_Suc_upt[symmetric] del: upt_Suc)
    have "dealerDraw rnd i hand = hand @ map (?d i) [0..<Suc n]"
      using True n(1) shift[of n] by (simp add: dealerDraw.simps[of rnd i hand] del: upt_Suc)
    moreover have "\<forall>m<Suc n. scoreHand (hand @ map (?d i) [0..<m]) < 17"
    proof (intro allI impI)
      fix m assume m: "m < Suc n"
      show "scoreHand (hand @ map (?d i) [0..<m]) < 17"
      proof (cases m)
        case 0
        with True show ?thesis by simp
      next
        case (Suc m')
        with m n(2) have "scoreHand ((hand @ [?c]) @ map (?d (i + 2)) [0..<m']) < 17" by simp
        with shift[of m'] Suc show ?thesis by (simp del: upt_Suc)
      qed
    qed
    ultimately show ?thesis by blast
  qed
qed

section \<open>Blackjack: Hit\<close>

text \<open>Facts for evaluating the handlers on concrete inputs.\<close>

lemmas eval_simps = scoreHand_def scoreHand_while.simps drawCard_def randomInt_def suits_def
  usernameOr_def dealerDraw.simps

text \<open>
  Claim C4, as the code has it. For every active session (one that \<^verbatim>\<open>Deal\<close> created, so
  with a dealer's hand that is not empty), a Hit draws exactly one card, of a rank from 1
  to 13, appends it to the player's hand and answers with the new scores; the session
  stays in the store with the longer hand, whatever the player's new score is. Both the
  HTTP route and the gRPC method do so; the gRPC method also writes the session to Redis.
\<close>

theorem hit_draws_one_card_keeps_session:
  assumes "games (usernameOr u) = Some g" and "g_dealerHand g = d # ds"
  shows "hit games u r1 r2 =
           (Reply \<lparr>newCard = drawCard r1 r2,
                   hit_playerScore = scoreHand (g_playerHand g @ [drawCard r1 r2]),
                   hit_dealerScore = scoreHand [d]\<rparr>,
            games(usernameOr u \<mapsto> g\<lparr>g_playerHand := g_playerHand g @ [drawCard r1 r2]\<rparr>))
       \<and> Hit rd (games, r) u r1 r2 =
           (Reply \<lparr>newCard = drawCard r1 r2,
                   hit_playerScore = scoreHand (g_playerHand g @ [drawCard r1 r2]),
                   hit_dealerScore = scoreHand [d]\<rparr>,
            (games(usernameOr u \<mapsto> g\<lparr>g_playerHand := g_playerHand g @ [drawCard r1 r2]\<rparr>),
             redis_set rd (gameStateKey (usernameOr u))
               (g\<lparr>g_playerHand := g_playerHand g @ [drawCard r1 r2]\<rparr>) r))
       \<and> 1 \<le> rank (drawCard r1 r2) \<and> rank (drawCard r1 r2) \<le> 13"
  using assms rank_drawCard[of r1 r2] by (simp add: hit_def Hit_def Let_def)

theorem hit_draws_one_card_keeps_session_witness:
  "snd (deal Map.empty (Some ''alice'') (Some 10) (\<lambda>i. 12)) ''alice'' =
      Some \<lparr>g_playerHand = [\<lparr>rank = 13, suit = Hearts\<rparr>, \<lparr>rank = 13, suit = Hearts\<rparr>],
            g_dealerHand = [\<lparr>rank = 13, suit = Hearts\<rparr>, \<lparr>rank = 13, suit = Hearts\<rparr>],
            g_betAmount = 10\<rparr>
   \<and> fst (hit (snd (deal Map.empty (Some ''alice'') (Some 10) (\<lambda>i. 12))) (Some ''alice'') 0 1) =
      Reply \<lparr>newCard = \<lparr>rank = 1, suit = Diamonds\<rparr>, hit_playerScore = 21, hit_dealerScore = 10\<rparr>
   \<and> snd (hit (snd (deal Map.empty (Some ''alice'') (Some 10) (\<lambda>i. 12))) (Some ''alice'') 0 1) ''alice'' =
      Some \<lparr>g_playerHand = [\<lparr>rank = 13, suit = Hearts\<rparr>, \<lparr>rank = 13, suit = Hearts\<rparr>,
                            \<lparr>rank = 1, suit = Diamonds\<rparr>],
            g_dealerHand = [\<lparr>rank = 13, suit = Hearts\<rparr>, \<lparr>rank = 13, suit = Hearts\<rparr>],
            g_betAmount = 10\<rparr>"
  using hit_draws_one_card_keeps_session[of "snd (deal Map.empty (Some ''alice'') (Some 10) (\<lambda>i. 12))"
      "Some ''alice''"
      "\<lparr>g_playerHand = [\<lparr>rank = 13, suit = Hearts\<rparr>, \<lparr>rank = 13, suit = Hearts\<rparr>],
            g_dealerHand = [\<lparr>rank = 13, suit = Hearts\<rparr>, \<lparr>rank = 13, suit = Hearts\<rparr>],
            g_betAmount = 10\<rparr>" "\<lparr>rank = 13, suit = Hearts\<rparr>" "[\<lparr>rank = 13, suit = Hearts\<rparr>]" 0 1
      "\<lparr>redis_set = (\<lambda>k v r. (k, v) # r), redis_del = (\<lambda>k r. r)\<rparr>" "[]"]
  by (simp add: deal_def Let_def eval_simps)

text \<open>
  Claim C4 as stated fails: after a deal of two kings to the player, a Hit that draws a
  five gives the score 25, above 21, and the session is still in the store with the
  three cards; nothing is settled.
\<close>

theorem hit_bust_leaves_session_open:
  "fst (hit (snd (deal Map.empty (Some ''alice'') (Some 10) (\<lambda>i. 12))) (Some ''alice'') 4 0) =
      Reply \<lparr>newCard = \<lparr>rank = 5, suit = Hearts\<rparr>, hit_playerScore = 25, hit_dealerScore = 10\<rparr>
   \<and> snd (hit (snd (deal Map.empty (Some ''alice'') (Some 10) (\<lambda>i. 12))) (Some ''alice'') 4 0) ''alice'' =
      Some \<lparr>g_playerHand = [\<lparr>rank = 13, suit = Hearts\<rparr>, \<lparr>rank = 13, suit = Hearts\<rparr>,
                            \<lparr>rank = 5, suit = Hearts\<rparr>],
            g_dealerHand = [\<lparr>rank = 13, suit = Hearts\<rparr>, \<lparr>rank = 13, suit = Hearts\<rparr>],
            g_betAmount = 10\<rparr>"
  by (simp add: deal_def hit_def Let_def eval_simps)

section \<open>Blackjack: actions without a session\<close>

text \<open>
  Claim C6. When the player has no session, Hit, Stand and Double fail with the error
  \<^verbatim>\<open>No active hand\<close> (status 400 over HTTP, \<^verbatim>\<open>INVALID_ARGUMENT\<close> over gRPC) and the store of
  sessions, and Redis with it, is the same after the call as before.
\<close>

theorem no_session_fails_without_state:
  assumes "games (usernameOr u) = None"
  shows "hit games u r1 r2 = (HttpError 400 ''No active hand'', games)
       \<and> stand games u rnd = (HttpError 400 ''No active hand'', games)
       \<and> double games u flag r1 r2 = (HttpError 400 ''No active hand'', games)
       \<and> Hit rd (games, r) u r1 r2 = (GrpcError INVALID_ARGUMENT ''No active hand'', (games, r))
       \<and> Stand rd (games, r) u rnd = (GrpcError INVALID_ARGUMENT ''No active hand'', None, (games, r))
       \<and> Double (games, r) u flag r1 r2 = (GrpcError INVALID_ARGUMENT ''No active hand'', (games, r))"
  using assms by (simp add: hit_def stand_def double_def Hit_def Stand_def Double_def)

theorem no_session_fails_without_state_witness:
  "usernameOr None = ''Anonymous''
   \<and> hit Map.empty None 3 1 = (HttpError 400 ''No active hand'', Map.empty)
   \<and> stand Map.empty None (\<lambda>i. 5) = (HttpError 400 ''No active hand'', Map.empty)
   \<and> double Map.empty None True 3 1 = (HttpError 400 ''No active hand'', Map.empty)
   \<and> Hit \<lparr>redis_set = (\<lambda>k v r. (k, v) # r), redis_del = (\<lambda>k r. filter (\<lambda>e. fst e \<noteq> k) r)\<rparr>
        (Map.empty, []) None 3 1 = (GrpcError INVALID_ARGUMENT ''No active hand'', (Map.empty, []))"
  using no_session_fails_without_state[of Map.empty None 3 1 "\<lambda>i. 5" True
      "\<lparr>redis_set = (\<lambda>k v r. (k, v) # r), redis_del = (\<lambda>k r. filter (\<lambda>e. fst e \<noteq> k) r)\<rparr>" "[]"]
  by (simp add: usernameOr_def)

section \<open>Dice: the roll\<close>

text \<open>
  Claim C10 asks that two values of the source of randomness give different pairs of dice.
  The code does not: every accepted roll answers with the dice 4 and 3, whatever the
  source of randomness and the request are.
\<close>

theorem rollHandler_dice_fixed:
  "(\<exists>resp. rollHandler rnd ''POST'' (Some req) = Reply resp \<and> Dice1 resp = 4 \<and> Dice2 resp = 3)
   \<and> rollHandler rnd method body = rollHandler rnd' method body"
  by (simp add: rollHandler_def Let_def split: prod.splits)

section \<open>Blackjack: Stand\<close>

lemma settle_cases:
  "(ps > 21 \<longrightarrow> settle_result ps ds = ''lose'' \<and> settle_payout (settle_result ps ds) bet = 0)
 \<and> (ps \<le> 21 \<and> (ds > 21 \<or> ps > ds) \<longrightarrow>
       settle_result ps ds = ''win'' \<and> settle_payout (settle_result ps ds) bet = 2 * bet)
 \<and> (ps \<le> 21 \<and> ds \<le> 21 \<and> ps = ds \<longrightarrow>
       settle_result ps ds = ''push'' \<and> settle_payout (settle_result ps ds) bet = bet)
 \<and> (ps \<le> 21 \<and> ds \<le> 21 \<and> ps < ds \<longrightarrow>
       settle_result ps ds = ''lose'' \<and> settle_payout (settle_result ps ds) bet = 0)"
  by (simp add: settle_result_def settle_payout_def)

text \<open>
  Claim C5. For every active session, Stand makes the dealer draw \<open>n\<close> cards from the
  source of randomness: each card is drawn because the hand before it scores less than
  17, and the final hand scores at least 17. The reply then settles: a player above 21
  loses with payout 0; otherwise a dealer above 21 or a strictly greater player's score is
  a win paying twice the bet; equal scores are a push paying the bet back; otherwise the
  player loses with payout 0. The session is removed from the store (and from Redis by
  the gRPC method, which answers the same).
\<close>

theorem stand_dealer_draws_to_17_and_settles:
  assumes "games (usernameOr u) = Some g"
  shows "\<exists>n dh res pay.
      dh = g_dealerHand g @ map (\<lambda>j. drawCard (rnd (2 * j)) (rnd (2 * j + 1))) [0..<n]
    \<and> (\<forall>m<n. scoreHand (g_dealerHand g @ map (\<lambda>j. drawCard (rnd (2 * j)) (rnd (2 * j + 1))) [0..<m]) < 17)
    \<and> 17 \<le> scoreHand dh
    \<and> stand games u rnd =
         (Reply \<lparr>dealerFinalHand = dh, stand_dealerScore = scoreHand dh,
                 stand_result = res, stand_payout = pay\<rparr>,
          games(usernameOr u := None))
    \<and> fst (Stand rd (games, r) u rnd) =
         Reply \<lparr>dealerFinalHand = dh, stand_dealerScore = scoreHand dh,
                stand_result = res, stand_payout = pay\<rparr>
    \<and> snd (snd (Stand rd (games, r) u rnd)) =
         (games(usernameOr u := None), redis_del rd (gameStateKey (usernameOr u)) r)
    \<and> (scoreHand (g_playerHand g) > 21 \<longrightarrow> res = ''lose'' \<and> pay = 0)
    \<and> (scoreHand (g_playerHand g) \<le> 21
         \<and> (scoreHand dh > 21 \<or> scoreHand (g_playerHand g) > scoreHand dh) \<longrightarrow>
           res = ''win'' \<and> pay = 2 * g_betAmount g)
    \<and> (scoreHand (g_playerHand g) \<le> 21 \<and> scoreHand dh \<le> 21
         \<and> scoreHand (g_playerHand g) = scoreHand dh \<longrightarrow>
           res = ''push'' \<and> pay = g_betAmount g)
    \<and> (scoreHand (g_playerHand g) \<le> 21 \<and> scoreHand dh \<le> 21
         \<and> scoreHand (g_playerHand g) < scoreHand dh \<longrightarrow>
           res = ''lose'' \<and> pay = 0)"
proof -
  let ?d = "\<lambda>j. drawCard (rnd (2 * j)) (rnd (2 * j + 1))"
  from dealerDraw_drawn[of rnd 0 "g_dealerHand g"] obtain n where n:
    "dealerDraw rnd 0 (g_dealerHand g) = g_dealerHand g @ map ?d [0..<n]"
    "\<forall>m<n. scoreHand (g_dealerHand g @ map ?d [0..<m]) < 17"
    by auto
  let ?dh = "g_dealerHand g @ map ?d [0..<n]"
  let ?res = "settle_result (scoreHand (g_playerHand g)) (scoreHand ?dh)"
  let ?pay = "settle_payout ?res (g_betAmount g)"
  have ge: "17 \<le> scoreHand ?dh"
    using dealerDraw_ge_17[of rnd 0 "g_dealerHand g"] n(1) by simp
  have st: "stand games u rnd =
         (Reply \<lparr>dealerFinalHand = ?dh, stand_dealerScore = scoreHand ?dh,
                 stand_result = ?res, stand_payout = ?pay\<rparr>,
          games(usernameOr u := None))"
    using assms n(1) by (simp add: stand_def Let_def)
  have St: "Stand rd (games, r) u rnd =
         (Reply \<lparr>dealerFinalHand = ?dh, stand_dealerScore = scoreHand ?dh,
                 stand_result = ?res, stand_payout = ?pay\<rparr>,
          Some \<lparr>rec_username = usernameOr u, rec_game = ''blackjack'', rec_action = ''stand'',
                rec_betAmount = g_betAmount g, rec_payout = ?pay,
                rec_win = (?res = ''win''), rec_result = ?res\<rparr>,
          (games(usernameOr u := None), redis_del rd (gameStateKey (usernameOr u)) r))"
    using assms n(1) by (simp add: Stand_def Let_def)
  note sc = settle_cases[of "scoreHand (g_playerHand g)" "scoreHand ?dh" "g_betAmount g"]
  show ?thesis
    apply (rule exI[of _ n], rule exI[of _ ?dh], rule exI[of _ ?res], rule exI[of _ ?pay])
    apply (intro conjI)
    subgoal by (rule refl)
    subgoal by (rule n(2))
    subgoal by (rule ge)
    subgoal by (rule st)
    subgoal by (simp only: St fst_conv)
    subgoal by (simp only: St snd_conv)
    subgoal using sc by blast
    subgoal using sc by blast
    subgoal using sc by blast
    subgoal using sc by blast
    done
qed

theorem stand_dealer_draws_to_17_and_settles_witness:
  "[''bob'' \<mapsto> \<lparr>g_playerHand = [\<lparr>rank = 10, suit = Clubs\<rparr>, \<lparr>rank = 9, suit = Clubs\<rparr>],
                  g_dealerHand = [\<lparr>rank = 10, suit = Spades\<rparr>, \<lparr>rank = 6, suit = Spades\<rparr>],
                  g_betAmount = 20\<rparr>] (usernameOr (Some ''bob'')) =
      Some \<lparr>g_playerHand = [\<lparr>rank = 10, suit = Clubs\<rparr>, \<lparr>rank = 9, suit = Clubs\<rparr>],
            g_dealerHand = [\<lparr>rank = 10, suit = Spades\<rparr>, \<lparr>rank = 6, suit = Spades\<rparr>],
            g_betAmount = 20\<rparr>
   \<and> fst (stand [''bob'' \<mapsto> \<lparr>g_playerHand = [\<lparr>rank = 10, suit = Clubs\<rparr>, \<lparr>rank = 9, suit = Clubs\<rparr>],
                  g_dealerHand = [\<lparr>rank = 10, suit = Spades\<rparr>, \<lparr>rank = 6, suit = Spades\<rparr>],
                  g_betAmount = 20\<rparr>] (Some ''bob'') (\<lambda>i. 4)) =
      Reply \<lparr>dealerFinalHand = [\<lparr>rank = 10, suit = Spades\<rparr>, \<lparr>rank = 6, suit = Spades\<rparr>,
                                 \<lparr>rank = 5, suit = Hearts\<rparr>],
             stand_dealerScore = 21, stand_result = ''lose'', stand_payout = 0\<rparr>
   \<and> snd (stand [''bob'' \<mapsto> \<lparr>g_playerHand = [\<lparr>rank = 10, suit = Clubs\<rparr>, \<lparr>rank = 9, suit = Clubs\<rparr>],
                  g_dealerHand = [\<lparr>rank = 10, suit = Spades\<rparr>, \<lparr>rank = 6, suit = Spades\<rparr>],
                  g_betAmount = 20\<rparr>] (Some ''bob'') (\<lambda>i. 4)) ''bob'' = None
   \<and> fst (stand [''bob'' \<mapsto> \<lparr>g_playerHand = [\<lparr>rank = 10, suit = Clubs\<rparr>, \<lparr>rank = 9, suit = Clubs\<rparr>],
                  g_dealerHand = [\<lparr>rank = 10, suit = Spades\<rparr>, \<lparr>rank = 7, suit = Spades\<rparr>],
                  g_betAmount = 20\<rparr>] (Some ''bob'') (\<lambda>i. 4)) =
      Reply \<lparr>dealerFinalHand = [\<lparr>rank = 10, suit = Spades\<rparr>, \<lparr>rank = 7, suit = Spades\<rparr>],
             stand_dealerScore = 17, stand_result = ''win'', stand_payout = 40\<rparr>"
  using stand_dealer_draws_to_17_and_settles[of
      "[''bob'' \<mapsto> \<lparr>g_playerHand = [\<lparr>rank = 10, suit = Clubs\<rparr>, \<lparr>rank = 9, suit = Clubs\<rparr>],
                  g_dealerHand = [\<lparr>rank = 10, suit = Spades\<rparr>, \<lparr>rank = 6, suit = Spades\<rparr>],
                  g_betAmount = 20\<rparr>]" "Some ''bob''"
      "\<lparr>g_playerHand = [\<lparr>rank = 10, suit = Clubs\<rparr>, \<lparr>rank = 9, suit = Clubs\<rparr>],
            g_dealerHand = [\<lparr>rank = 10, suit = Spades\<rparr>, \<lparr>rank = 6, suit = Spades\<rparr>],
            g_betAmount = 20\<rparr>" "\<lambda>i. 4"
      "\<lparr>redis_set = (\<lambda>k v r. (k, v) # r), redis_del = (\<lambda>k r. r)\<rparr>" "[]"]
  by (simp add: stand_def Let_def eval_simps settle_result_def settle_payout_def)

section \<open>Scoring: rejected bets\<close>

text \<open>
  Claim C3. A game result whose bet is \<^verbatim>\<open>null\<close>, zero or negative is answered with status
  400 and the database is left as it was: no result row, no score row, and therefore
  the same dashboard statistics as before.
\<close>

theorem rejects_nonpositive_bet_before_any_effect:
  assumes "req_betAmount req = None \<or> (\<exists>b. req_betAmount req = Some b \<and> b \<le> 0)"
  shows "fst (ScoringController_recordGameResult scan format now d req) = BadRequest
       \<and> snd (ScoringController_recordGameResult scan format now d req) = d
       \<and> getDashboardStats (jpa scan' (snd (ScoringController_recordGameResult scan format now d req)))
            valuesOrder readValue t game
          = getDashboardStats (jpa scan' d) valuesOrder readValue t game"
  using assms by (auto simp: ScoringController_recordGameResult_def)

theorem rejects_nonpositive_bet_before_any_effect_witness:
  "req_betAmount \<lparr>req_username = ''alice'', req_game = ''slots'', req_action = ''spin'',
       req_betAmount = Some 0, req_payout = Some 50, req_win = Some True, req_result = None,
       req_gameData = None, req_metadata = None\<rparr> = Some 0
   \<and> ScoringController_recordGameResult id (\<lambda>b p n t. ''{}'') 100 emptyDb
        \<lparr>req_username = ''alice'', req_game = ''slots'', req_action = ''spin'',
         req_betAmount = Some 0, req_payout = Some 50, req_win = Some True, req_result = None,
         req_gameData = None, req_metadata = None\<rparr> = (BadRequest, emptyDb)"
  using rejects_nonpositive_bet_before_any_effect[of
      "\<lparr>req_username = ''alice'', req_game = ''slots'', req_action = ''spin'',
         req_betAmount = Some 0, req_payout = Some 50, req_win = Some True, req_result = None,
         req_gameData = None, req_metadata = None\<rparr>" id "\<lambda>b p n t. ''{}''" 100 emptyDb id id "\<lambda>s. None" 100 "''slots''"]
  by (simp add: prod_eq_iff)

section \<open>Scoring: the win rate of the dashboard\<close>

lemma getTopPlayers_jpa_10:
  "\<exists>ps. getTopPlayers (jpa scan d) valuesOrder game 10 = Inr ps"
  by (simp add: getTopPlayers_def jpa_def)

text \<open>
  Claim C7. For every game and every content of the tables, the dashboard is computed
  and its win rate is the number of wins over the number of games times 100, both counted
  over the stored results of the game whose bet is above zero; it is 0 when there is no
  such game, and it always lies between 0 and 100.
\<close>

theorem dashboard_winRate:
  "\<exists>stats. getDashboardStats (jpa scan d) valuesOrder readValue now game = Inr stats
     \<and> ds_totalGames stats =
         int (length (filter (\<lambda>r. gr_game r = game \<and> positiveBet r) (gameResults d)))
     \<and> ds_totalWins stats =
         int (length (filter (\<lambda>r. gr_game r = game \<and> gr_win r = Some True \<and> positiveBet r)
                        (gameResults d)))
     \<and> ds_winRate stats =
         (if ds_totalGames stats = 0 then 0
          else real_of_int (ds_totalWins stats) / real_of_int (ds_totalGames stats) * 100)
     \<and> 0 \<le> ds_winRate stats \<and> ds_winRate stats \<le> 100"
proof -
  let ?total = "length (filter (\<lambda>r. gr_game r = game \<and> positiveBet r) (gameResults d))"
  let ?wins = "length (filter (\<lambda>r. gr_game r = game \<and> gr_win r = Some True \<and> positiveBet r)
                        (gameResults d))"
  have "filter (\<lambda>r. gr_game r = game \<and> gr_win r = Some True \<and> positiveBet r) (gameResults d)
      = filter (\<lambda>r. gr_win r = Some True) (filter (\<lambda>r. gr_game r = game \<and> positiveBet r) (gameResults d))"
    by (simp add: conj_commute conj_left_commute)
  then have le: "?wins \<le> ?total" by (simp only: length_filter_le)
  from getTopPlayers_jpa_10[of scan d valuesOrder game] obtain ps where
    ps: "getTopPlayers (jpa scan d) valuesOrder game 10 = Inr ps" by blast
  have rate: "real ?wins / real ?total * 100 \<le> 100" if "0 < ?total"
    using le that by (simp add: pos_divide_le_eq)
  show ?thesis
    using ps le rate by (auto simp: getDashboardStats_def jpa_def)
qed

section \<open>Scoring: the dashboard of all games\<close>

lemma getDashboardStats_game:
  "getDashboardStats repo valuesOrder readValue now game = Inr stats \<Longrightarrow> ds_game stats = game"
  by (auto simp: getDashboardStats_def split: sum.splits)

text \<open>
  Claim C8. The statistics of all games are always a list of four entries, one for each of
  slots, roulette, dice and blackjack in this order, whatever the repositories do. Where
  the computation for a game throws, the entry of that game is the row of zeros with an
  empty list of top players; where it succeeds, the entry is its result.
\<close>

theorem all_games_stats_degrade_per_game:
  "length (getAllGamesDashboardStats repo valuesOrder readValue now) = 4
   \<and> map ds_game (getAllGamesDashboardStats repo valuesOrder readValue now)
       = [''slots'', ''roulette'', ''dice'', ''blackjack'']
   \<and> (\<forall>i<4. \<forall>e.
         getDashboardStats repo valuesOrder readValue now
           ([''slots'', ''roulette'', ''dice'', ''blackjack''] ! i) = Inl e \<longrightarrow>
         getAllGamesDashboardStats repo valuesOrder readValue now ! i =
           \<lparr>ds_game = [''slots'', ''roulette'', ''dice'', ''blackjack''] ! i,
            ds_totalGames = 0, ds_totalWins = 0, ds_totalLosses = 0, ds_winRate = 0,
            ds_totalBetAmount = 0, ds_totalPayout = 0, ds_netRevenue = 0,
            ds_averageBetAmount = 0, ds_averagePayout = 0, ds_recentGames = 0,
            ds_topPlayers = []\<rparr>)
   \<and> (\<forall>i<4. \<forall>stats.
         getDashboardStats repo valuesOrder readValue now
           ([''slots'', ''roulette'', ''dice'', ''blackjack''] ! i) = Inr stats \<longrightarrow>
         getAllGamesDashboardStats repo valuesOrder readValue now ! i = stats)"
proof -
  let ?gs = "[''slots'', ''roulette'', ''dice'', ''blackjack'']"
  let ?f = "\<lambda>game. case getDashboardStats repo valuesOrder readValue now game of
                   Inr stats \<Rightarrow> stats | Inl e \<Rightarrow> emptyStats game"
  have all: "getAllGamesDashboardStats repo valuesOrder readValue now = map ?f ?gs"
    by (simp add: getAllGamesDashboardStats_def)
  have g: "ds_game (?f game) = game" for game
    by (auto simp: emptyStats_def split: sum.splits dest: getDashboardStats_game)
  have nth: "getAllGamesDashboardStats repo valuesOrder readValue now ! i = ?f (?gs ! i)"
    if "i < 4" for i
    using that unfolding all by (subst nth_map) simp_all
  show ?thesis
  proof (intro conjI allI impI)
    show "length (getAllGamesDashboardStats repo valuesOrder readValue now) = 4"
      unfolding all by simp
    show "map ds_game (getAllGamesDashboardStats repo valuesOrder readValue now) = ?gs"
      unfolding all by (simp add: g)
  next
    fix i e
    assume "i < 4" "getDashboardStats repo valuesOrder readValue now (?gs ! i) = Inl e"
    then show "getAllGamesDashboardStats repo valuesOrder readValue now ! i =
           \<lparr>ds_game = ?gs ! i,
            ds_totalGames = 0, ds_totalWins = 0, ds_totalLosses = 0, ds_winRate = 0,
            ds_totalBetAmount = 0, ds_totalPayout = 0, ds_netRevenue = 0,
            ds_averageBetAmount = 0, ds_averagePayout = 0, ds_recentGames = 0,
            ds_topPlayers = []\<rparr>"
      by (simp add: nth emptyStats_def)
  next
    fix i stats
    assume "i < 4" "getDashboardStats repo valuesOrder readValue now (?gs ! i) = Inr stats"
    then show "getAllGamesDashboardStats repo valuesOrder readValue now ! i = stats"
      by (simp add: nth)
  qed
qed

theorem all_games_stats_degrade_per_game_witness:
  "(2::nat) < 4
   \<and> getDashboardStats
        ((jpa id db1)\<lparr>countWinsByGame :=
           (\<lambda>g. if g = ''dice'' then Inl DataAccessException else countWinsByGame (jpa id db1) g)\<rparr>)
        id (\<lambda>s. None) 100 ([''slots'', ''roulette'', ''dice'', ''blackjack''] ! 2)
       = Inl DataAccessException
   \<and> getAllGamesDashboardStats
        ((jpa id db1)\<lparr>countWinsByGame :=
           (\<lambda>g. if g = ''dice'' then Inl DataAccessException else countWinsByGame (jpa id db1) g)\<rparr>)
        id (\<lambda>s. None) 100 ! 2
       = emptyStats ''dice''
   \<and> ds_winRate (getAllGamesDashboardStats
        ((jpa id db1)\<lparr>countWinsByGame :=
           (\<lambda>g. if g = ''dice'' then Inl DataAccessException else countWinsByGame (jpa id db1) g)\<rparr>)
        id (\<lambda>s. None) 100 ! 0) = 100"
  using all_games_stats_degrade_per_game[of
        "(jpa id db1)\<lparr>countWinsByGame :=
           (\<lambda>g. if g = ''dice'' then Inl DataAccessException else countWinsByGame (jpa id db1) g)\<rparr>"
        id "\<lambda>s. None" 100]
  by (simp add: getAllGamesDashboardStats_def getDashboardStats_def getTopPlayers_def jpa_def db1_def
      emptyStats_def positiveBet_def amount_def)

section \<open>Scoring: the best payout of a player\<close>

lemma scan_set: "mset (scan xs) = mset xs \<Longrightarrow> set (scan xs) = set xs"
  by (rule mset_eq_setD)



lemma find_Some_set: "find P xs = Some x \<Longrightarrow> x \<in> set xs \<and> P x"
  by (induction xs) (auto split: if_splits)







lemma scoreKey_updatedScore [simp]: "scoreKey (updatedScore format now bet pay e) = scoreKey e"
  by (simp add: updatedScore_def scoreKey_def)

lemma ps_id_updatedScore [simp]: "ps_id (updatedScore format now bet pay e) = ps_id e"
  by (simp add: updatedScore_def)


lemma ps_timestamp_updatedScore [simp]: "ps_timestamp (updatedScore format now bet pay e) = now"
  by (simp add: updatedScore_def)


















lemmas scoring_eval = recordGameResult_def save_GameResult_def save_new_PlayerScore_def
  save_PlayerScore_def findByUsernameAndGameOrderByTimestampDesc_def
  findFirstByUsernameAndGameOrderByScoreDesc_def getBestScoreForUser_def freshId_def emptyDb_def
  storedScore_def bestPayout_def lastUpdated_def Let_def


section \<open>Scoring: the leaderboard\<close>

lemma toMap_merge_keys:
  "map fst (toMap_merge m b) =
     (if ps_username b \<in> set (map fst m) then map fst m else map fst m @ [ps_username b])"
  by (induction m b rule: toMap_merge.induct) auto

lemma toMap_merge_map_of:
  "distinct (map fst m) \<Longrightarrow>
   map_of (toMap_merge m b) =
     (map_of m)(ps_username b \<mapsto>
        (case map_of m (ps_username b) of
           None \<Rightarrow> b
         | Some a \<Rightarrow> if ps_score a > ps_score b then a else b))"
proof (induction m b rule: toMap_merge.induct)
  case (1 b)
  show ?case by simp
next
  case (2 k a m b)
  show ?case
  proof (cases "k = ps_username b")
    case True
    then show ?thesis by (auto simp: fun_eq_iff)
  next
    case False
    with 2 show ?thesis by (auto simp: fun_eq_iff)
  qed
qed

lemma bestPerUser_merge:
  assumes "bestPerUser m rows"
  shows "bestPerUser (toMap_merge m b) (rows @ [b])"
proof -
  from assms have d: "distinct (map fst m)" and ks: "set (map fst m) = set (map ps_username rows)"
    and best: "\<And>k v. (k, v) \<in> set m \<Longrightarrow> v \<in> set rows \<and> ps_username v = k
         \<and> (\<forall>p\<in>set rows. ps_username p = k \<longrightarrow> ps_score p \<le> ps_score v)"
    by (auto simp: bestPerUser_def)
  let ?m' = "toMap_merge m b"
  have d': "distinct (map fst ?m')" using d by (simp add: toMap_merge_keys)
  have ks': "set (map fst ?m') = set (map ps_username (rows @ [b]))"
    using ks by (auto simp: toMap_merge_keys)
  have best': "v \<in> set (rows @ [b]) \<and> ps_username v = k
         \<and> (\<forall>p\<in>set (rows @ [b]). ps_username p = k \<longrightarrow> ps_score p \<le> ps_score v)"
    if kv: "(k, v) \<in> set ?m'" for k v
  proof -
    from kv d' have mo: "map_of ?m' k = Some v" by simp
    show ?thesis
    proof (cases "k = ps_username b")
      case False
      with mo d have "map_of m k = Some v" by (simp add: toMap_merge_map_of)
      then have "(k, v) \<in> set m" by (rule map_of_SomeD)
      from best[OF this] False show ?thesis by auto
    next
      case True
      show ?thesis
      proof (cases "map_of m k")
        case None
        with mo d True have v: "v = b" by (simp add: toMap_merge_map_of)
        from None have "k \<notin> set (map fst m)" by (simp add: map_of_eq_None_iff)
        with ks have "\<forall>p\<in>set rows. ps_username p \<noteq> k" by auto
        with v True show ?thesis by auto
      next
        case (Some a)
        then have "(k, a) \<in> set m" by (rule map_of_SomeD)
        from best[OF this] have a: "a \<in> set rows" "ps_username a = k"
          "\<forall>p\<in>set rows. ps_username p = k \<longrightarrow> ps_score p \<le> ps_score a" by auto
        from mo d True Some have v: "v = (if ps_score a > ps_score b then a else b)"
          by (simp add: toMap_merge_map_of)
        show ?thesis
        proof (cases "ps_score a > ps_score b")
          case True
          with v a \<open>k = ps_username b\<close> show ?thesis by auto
        next
          case False
          with v a \<open>k = ps_username b\<close> show ?thesis by (auto intro: order_trans)
        qed
      qed
    qed
  qed
  show ?thesis
    unfolding bestPerUser_def using d' ks' best' by blast
qed

lemma bestPerUser_toMap: "bestPerUser (toMap rows) rows"
proof (induction rows rule: rev_induct)
  case Nil
  show ?case by (simp add: bestPerUser_def toMap_def)
next
  case (snoc b rows)
  from bestPerUser_merge[OF snoc] show ?case by (simp add: toMap_def)
qed

lemma sorted_desc_sort_key:
  "sorted_wrt (\<lambda>a b. ps_score a \<ge> ps_score b) (sort_key (\<lambda>p. - ps_score p) xs)"
proof -
  have "sorted (map (\<lambda>p. - ps_score p) (sort_key (\<lambda>p. - ps_score p) xs))"
    by (rule sorted_sort_key)
  then show ?thesis by (simp add: sorted_map)
qed

text \<open>
  Claim C9, as the code has it. For a limit that is not negative, the leaderboard is the
  first \<open>limit\<close> rows of a list sorted by best payout, highest first. For one game that
  list holds exactly the score rows of the game. For \<^verbatim>\<open>all\<close> it holds one row for each
  player, a stored row whose best payout is the highest among the rows of that player.
  Nothing more is fixed: the query sorts on the score alone, so the order of rows with
  equal best payout, and which of them pass the limit, is whatever order the database
  (and, for \<^verbatim>\<open>all\<close>, the hash map) yields them in.
\<close>

theorem getTopPlayers_sorted_truncated:
  assumes "0 \<le> limit" and "\<And>xs. mset (scan xs) = mset xs"
    and "\<And>m. mset (valuesOrder m) = mset m"
  shows "\<exists>ys. getTopPlayers (jpa scan d) valuesOrder game limit = Inr (take (nat limit) ys)
     \<and> sorted_wrt (\<lambda>a b. ps_score a \<ge> ps_score b) ys
     \<and> (game \<noteq> ''all'' \<longrightarrow>
          mset ys = mset (filter (\<lambda>p. ps_game p = game) (playerScores d)))
     \<and> (game = ''all'' \<longrightarrow>
          distinct (map ps_username ys)
        \<and> set (map ps_username ys) = set (map ps_username (playerScores d))
        \<and> (\<forall>y\<in>set ys. y \<in> set (playerScores d)
              \<and> (\<forall>p\<in>set (playerScores d). ps_username p = ps_username y \<longrightarrow>
                    ps_score p \<le> ps_score y)))"
proof (cases "game = ''all''")
  case False
  let ?K = "filter (\<lambda>p. ps_game p = game) (playerScores d)"
  let ?ys = "sort_key (\<lambda>p. - ps_score p) (scan ?K)"
  have "getTopPlayers (jpa scan d) valuesOrder game limit = Inr (take (nat limit) ?ys)"
    using False assms(1) by (simp add: getTopPlayers_def jpa_def)
  moreover have "mset ?ys = mset ?K" by (simp only: mset_sort assms(2))
  ultimately show ?thesis
    using False sorted_desc_sort_key by blast
next
  case True
  let ?rows = "scan (playerScores d)"
  let ?m = "toMap ?rows"
  let ?vs = "map snd (valuesOrder ?m)"
  let ?ys = "sort_key (\<lambda>p. - ps_score p) ?vs"
  have srows: "set ?rows = set (playerScores d)" by (rule scan_set[OF assms(2)])
  have get: "getTopPlayers (jpa scan d) valuesOrder game limit = Inr (take (nat limit) ?ys)"
    using True assms(1) by (simp add: getTopPlayers_def jpa_def)
  from bestPerUser_toMap[of ?rows] have dm: "distinct (map fst ?m)"
    and km: "set (map fst ?m) = set (map ps_username ?rows)"
    and best: "\<And>k v. (k, v) \<in> set ?m \<Longrightarrow> v \<in> set ?rows \<and> ps_username v = k
         \<and> (\<forall>p\<in>set ?rows. ps_username p = k \<longrightarrow> ps_score p \<le> ps_score v)"
    by (auto simp: bestPerUser_def)
  have perm: "mset (valuesOrder ?m) = mset ?m" by (rule assms(3))
  then have sv: "set (valuesOrder ?m) = set ?m" by (rule mset_eq_setD)
  have "mset (map fst (valuesOrder ?m)) = mset (map fst ?m)" using perm by simp
  then have dv: "distinct (map fst (valuesOrder ?m))" and kv: "set (map fst (valuesOrder ?m)) = set (map fst ?m)"
    using dm mset_eq_imp_distinct_iff mset_eq_setD by blast+
  have names: "map ps_username ?vs = map fst (valuesOrder ?m)"
    using best sv by (auto simp: map_eq_conv)
  have "mset (map ps_username ?ys) = mset (map ps_username ?vs)"
    by (simp only: mset_map mset_sort)
  also have "\<dots> = mset (map fst (valuesOrder ?m))" by (simp only: names)
  finally have eqm: "mset (map ps_username ?ys) = mset (map fst (valuesOrder ?m))" .
  have dy: "distinct (map ps_username ?ys)"
    using mset_eq_imp_distinct_iff[OF eqm] dv by blast
  have "set (map ps_username ?rows) = set (map ps_username (playerScores d))"
    using srows by simp
  then have ky: "set (map ps_username ?ys) = set (map ps_username (playerScores d))"
    using mset_eq_setD[OF eqm] kv km by blast
  have each: "y \<in> set (playerScores d)
      \<and> (\<forall>p\<in>set (playerScores d). ps_username p = ps_username y \<longrightarrow> ps_score p \<le> ps_score y)"
    if "y \<in> set ?ys" for y
  proof -
    from that have "y \<in> snd ` set (valuesOrder ?m)" by simp
    with sv obtain k where "(k, y) \<in> set ?m" by auto
    from best[OF this] show ?thesis unfolding srows by auto
  qed
  show ?thesis
    apply (rule exI[of _ ?ys])
    using get True sorted_desc_sort_key[of ?vs] dy ky each by blast
qed

theorem getTopPlayers_sorted_truncated_witness:
  "(0::int) \<le> 1
   \<and> (\<forall>xs::PlayerScore list. mset (rev xs) = mset xs)
   \<and> (\<forall>m::(string \<times> PlayerScore) list. mset (rev m) = mset m)
   \<and> getTopPlayers (jpa rev db2) rev ''all'' 1 =
       Inr [\<lparr>ps_id = 2, ps_username = ''alice'', ps_role = ''player'', ps_game = ''dice'',
               ps_score = 70, ps_timestamp = 110, ps_metadata = None\<rparr>]
   \<and> getTopPlayers (jpa rev db2) rev ''slots'' 1 =
       Inr [\<lparr>ps_id = 3, ps_username = ''bob'', ps_role = ''player'', ps_game = ''slots'',
               ps_score = 60, ps_timestamp = 120, ps_metadata = None\<rparr>]"
  using getTopPlayers_sorted_truncated[of 1 rev rev db2 "''all''"]
  by (simp add: getTopPlayers_def jpa_def db2_def toMap_def)

text \<open>
  Claim C9 as stated fails on ties. Two players each record one round of slots with
  payout 50, the first at time 100 and the second at time 200. A database that yields
  tied rows in the order of insertion gives the leaderboard with the row of time 100
  first, and with a limit of 1 only that row; a database that yields them in the other
  order gives the row of time 200 first. So the code does not put the more recent row
  first whatever the database does.
\<close>

theorem leaderboard_tie_order_not_by_timestamp:
  "getTopPlayers (jpa id (recordAll id (\<lambda>b p n t. ''{}'') emptyDb [(100, win50), (200, bob50)]))
      id ''slots'' 10 =
     Inr [\<lparr>ps_id = 1, ps_username = ''alice'', ps_role = ''player'', ps_game = ''slots'',
           ps_score = 50, ps_timestamp = 100, ps_metadata = Some ''{}''\<rparr>,
          \<lparr>ps_id = 2, ps_username = ''bob'', ps_role = ''player'', ps_game = ''slots'',
           ps_score = 50, ps_timestamp = 200, ps_metadata = Some ''{}''\<rparr>]
   \<and> getTopPlayers (jpa rev (recordAll id (\<lambda>b p n t. ''{}'') emptyDb [(100, win50), (200, bob50)]))
      id ''slots'' 10 =
     Inr [\<lparr>ps_id = 2, ps_username = ''bob'', ps_role = ''player'', ps_game = ''slots'',
           ps_score = 50, ps_timestamp = 200, ps_metadata = Some ''{}''\<rparr>,
          \<lparr>ps_id = 1, ps_username = ''alice'', ps_role = ''player'', ps_game = ''slots'',
           ps_score = 50, ps_timestamp = 100, ps_metadata = Some ''{}''\<rparr>]
   \<and> getTopPlayers (jpa id (recordAll id (\<lambda>b p n t. ''{}'') emptyDb [(100, win50), (200, bob50)]))
      id ''slots'' 1 =
     Inr [\<lparr>ps_id = 1, ps_username = ''alice'', ps_role = ''player'', ps_game = ''slots'',
           ps_score = 50, ps_timestamp = 100, ps_metadata = Some ''{}''\<rparr>]
   \<and> \<not> (\<forall>scan. (\<forall>xs. mset (scan xs) = mset xs) \<longrightarrow>
          getTopPlayers (jpa scan (recordAll id (\<lambda>b p n t. ''{}'') emptyDb [(100, win50), (200, bob50)]))
            id ''slots'' 10 =
          Inr [\<lparr>ps_id = 2, ps_username = ''bob'', ps_role = ''player'', ps_game = ''slots'',
                ps_score = 50, ps_timestamp = 200, ps_metadata = Some ''{}''\<rparr>,
               \<lparr>ps_id = 1, ps_username = ''alice'', ps_role = ''player'', ps_game = ''slots'',
                ps_score = 50, ps_timestamp = 100, ps_metadata = Some ''{}''\<rparr>])"
proof -
  let ?d = "recordAll id (\<lambda>b p n t. ''{}'') emptyDb [(100, win50), (200, bob50)]"
  let ?a = "\<lparr>ps_id = 1, ps_username = ''alice'', ps_role = ''player'', ps_game = ''slots'',
           ps_score = 50, ps_timestamp = 100, ps_metadata = Some ''{}''\<rparr>"
  let ?b = "\<lparr>ps_id = 2, ps_username = ''bob'', ps_role = ''player'', ps_game = ''slots'',
           ps_score = 50, ps_timestamp = 200, ps_metadata = Some ''{}''\<rparr>"
  have rows: "playerScores ?d = [?a, ?b]"
    by (simp add: scoring_eval win50_def bob50_def)
  have older: "getTopPlayers (jpa id ?d) id ''slots'' 10 = Inr [?a, ?b]"
    by (simp add: getTopPlayers_def jpa_def rows del: recordAll.simps)
  have newer: "getTopPlayers (jpa rev ?d) id ''slots'' 10 = Inr [?b, ?a]"
    by (simp add: getTopPlayers_def jpa_def rows del: recordAll.simps)
  have one: "getTopPlayers (jpa id ?d) id ''slots'' 1 = Inr [?a]"
    by (simp add: getTopPlayers_def jpa_def rows del: recordAll.simps)
  have "\<not> (\<forall>scan. (\<forall>xs. mset (scan xs) = mset xs) \<longrightarrow>
          getTopPlayers (jpa scan ?d) id ''slots'' 10 = Inr [?b, ?a])"
  proof
    assume "\<forall>scan. (\<forall>xs. mset (scan xs) = mset xs) \<longrightarrow>
          getTopPlayers (jpa scan ?d) id ''slots'' 10 = Inr [?b, ?a]"
    then have "(\<forall>xs::PlayerScore list. mset (id xs) = mset xs) \<longrightarrow>
          getTopPlayers (jpa id ?d) id ''slots'' 10 = Inr [?b, ?a]" by (rule spec)
    then have "getTopPlayers (jpa id ?d) id ''slots'' 10 = Inr [?b, ?a]" by simp
    with older show False by (simp del: recordAll.simps)
  qed
  with older newer one show ?thesis by (simp del: recordAll.simps)
qed

end
